theory Spec2Isabelle
  imports Complex_Main "HOL-Library.Word"
begin

section \<open>Python values used by the notebooks\<close>

text \<open>
  The SDK's \<open>Float\<close> wraps a Python float and \<open>Integer\<close> a Python int. A Python
  float is a binary64 value: a finite number, one of the two infinities, or NaN. The
  finite values are kept as the real numbers they denote; the rounding of an exact
  result to binary64 is the parameter \<open>rnd\<close> of the arithmetic below (it may overflow
  to an infinity), so that every statement proved holds for whatever rounding the
  machine performs. Signed zeros are not distinguished: they compare equal in Python.
\<close>

datatype pyfloat = Finite real | PInf | NInf | NaN

text \<open>Python's \<open>x < y\<close> and \<open>x <= y\<close> on floats: every comparison with NaN is false.\<close>

fun flt :: "pyfloat \<Rightarrow> pyfloat \<Rightarrow> bool" where
  "flt NaN _ = False"
| "flt _ NaN = False"
| "flt (Finite x) (Finite y) = (x < y)"
| "flt _ NInf = False"
| "flt NInf _ = True"
| "flt PInf _ = False"
| "flt _ PInf = True"

fun fle :: "pyfloat \<Rightarrow> pyfloat \<Rightarrow> bool" where
  "fle NaN _ = False"
| "fle _ NaN = False"
| "fle (Finite x) (Finite y) = (x \<le> y)"
| "fle NInf _ = True"
| "fle _ PInf = True"
| "fle _ NInf = False"
| "fle PInf _ = False"

text \<open>Python's \<open>x + y\<close> and \<open>x * y\<close> on floats; neither raises.\<close>

fun fadd :: "(real \<Rightarrow> pyfloat) \<Rightarrow> pyfloat \<Rightarrow> pyfloat \<Rightarrow> pyfloat" where
  "fadd rnd NaN _ = NaN"
| "fadd rnd _ NaN = NaN"
| "fadd rnd (Finite x) (Finite y) = rnd (x + y)"
| "fadd rnd PInf NInf = NaN"
| "fadd rnd NInf PInf = NaN"
| "fadd rnd PInf _ = PInf"
| "fadd rnd _ PInf = PInf"
| "fadd rnd NInf _ = NInf"
| "fadd rnd _ NInf = NInf"

fun fmul_inf :: "bool \<Rightarrow> pyfloat \<Rightarrow> pyfloat" where
  "fmul_inf pos NaN = NaN"
| "fmul_inf pos PInf = (if pos then PInf else NInf)"
| "fmul_inf pos NInf = (if pos then NInf else PInf)"
| "fmul_inf pos (Finite y) =
     (if y = 0 then NaN else if (0 < y) = pos then PInf else NInf)"

fun fmul :: "(real \<Rightarrow> pyfloat) \<Rightarrow> pyfloat \<Rightarrow> pyfloat \<Rightarrow> pyfloat" where
  "fmul rnd NaN _ = NaN"
| "fmul rnd _ NaN = NaN"
| "fmul rnd (Finite x) (Finite y) = rnd (x * y)"
| "fmul rnd PInf y = fmul_inf True y"
| "fmul rnd NInf y = fmul_inf False y"
| "fmul rnd x PInf = fmul_inf True x"
| "fmul rnd x NInf = fmul_inf False x"

text \<open>
  The builtin \<open>min(x, y)\<close> of two arguments keeps \<open>x\<close> and replaces it by \<open>y\<close> only
  when \<open>y < x\<close> holds.
\<close>

definition pymin :: "pyfloat \<Rightarrow> pyfloat \<Rightarrow> pyfloat" where
  "pymin x y = (if flt y x then y else x)"

section \<open>Getting started: SummatorCell and MultiplierCell\<close>

record SummatorInputs =
  op_1 :: pyfloat
  op_2 :: pyfloat

record SummatorOutputs =
  sum_field :: pyfloat

record SummatorParameters =
  threshold :: pyfloat

text \<open>\<open>SummatorParameters()\<close>: the default threshold is \<open>Float(100.0)\<close>.\<close>

definition SummatorParameters_default :: SummatorParameters where
  "SummatorParameters_default = \<lparr>threshold = Finite 100\<rparr>"

definition SummatorCell_process_parameters :: "SummatorParameters \<Rightarrow> SummatorParameters" where
  "SummatorCell_process_parameters parameters = parameters"

definition SummatorCell_call ::
  "(real \<Rightarrow> pyfloat) \<Rightarrow> SummatorParameters \<Rightarrow> SummatorInputs \<Rightarrow> SummatorOutputs" where
  "SummatorCell_call rnd parameters inputs =
     \<lparr>sum_field = pymin (fadd rnd (op_1 inputs) (op_2 inputs)) (threshold parameters)\<rparr>"

record MultiplierInputs =
  op_1 :: pyfloat
  op_2 :: pyfloat

record MultiplierOutputs =
  product :: pyfloat

text \<open>\<open>MultiplierParameters\<close> declares no field.\<close>

datatype MultiplierParameters = MultiplierParameters

definition MultiplierCell_process_parameters ::
  "MultiplierParameters \<Rightarrow> MultiplierParameters" where
  "MultiplierCell_process_parameters parameters = parameters"

definition MultiplierCell_call ::
  "(real \<Rightarrow> pyfloat) \<Rightarrow> MultiplierParameters \<Rightarrow> MultiplierInputs \<Rightarrow> MultiplierOutputs" where
  "MultiplierCell_call rnd parameters inputs =
     \<lparr>product = fmul rnd (MultiplierInputs.op_1 inputs) (MultiplierInputs.op_2 inputs)\<rparr>"

section \<open>Pipeline drivers: the stateful MyCell\<close>

record MyInputs =
  integer :: int

record MyOutputs =
  integer :: int
  counter :: int

record MyParameters =
  adder :: int

record MyState =
  counter :: int

definition MyParameters_default :: MyParameters where
  "MyParameters_default = \<lparr>adder = 1\<rparr>"

definition MyState_default :: MyState where
  "MyState_default = \<lparr>MyState.counter = 0\<rparr>"

text \<open>
  \<open>MyCell.call\<close> reads the state object from the context, assigns its counter and
  returns the outputs. The state is passed in and returned updated.
\<close>

definition MyCell_call :: "MyState \<Rightarrow> MyParameters \<Rightarrow> MyInputs \<Rightarrow> MyOutputs \<times> MyState" where
  "MyCell_call state parameters inputs =
     (let state' = state\<lparr>MyState.counter := MyState.counter state + 1\<rparr>
      in (\<lparr>MyOutputs.integer = MyInputs.integer inputs + adder parameters,
           MyOutputs.counter = MyState.counter state'\<rparr>, state'))"

text \<open>
  A sequence of invocations on one state object: each request is the pair of the
  parameters and the inputs of that invocation; the outputs are returned in order.
\<close>

fun MyCell_calls ::
  "MyState \<Rightarrow> (MyParameters \<times> MyInputs) list \<Rightarrow> MyOutputs list \<times> MyState" where
  "MyCell_calls state [] = ([], state)"
| "MyCell_calls state ((parameters, inputs) # requests) =
     (case MyCell_call state parameters inputs of
        (outputs, state') \<Rightarrow>
          (case MyCell_calls state' requests of
             (rest, final) \<Rightarrow> (outputs # rest, final)))"

section \<open>Errors\<close>

text \<open>
  Every exception is a value: the builtin ones that the notebooks' own code can raise,
  and \<open>SDKError\<close> for an exception of an SDK call. \<open>PipelineError\<close> stands for a
  cell input or a pipeline output that has no value.
\<close>

datatype error =
    IndexError | ValueError | OverflowError | KeyError | TypeError | AssertionError
  | PipelineError
  | SDKError string

text \<open>\<open>xs[index]\<close> on a Python list: a negative index counts from the end.\<close>

definition list_getitem :: "'a list \<Rightarrow> int \<Rightarrow> error + 'a" where
  "list_getitem xs index =
     (if 0 \<le> index \<and> index < int (length xs) then Inr (xs ! nat index)
      else if index < 0 \<and> - int (length xs) \<le> index then Inr (xs ! nat (index + int (length xs)))
      else Inl IndexError)"

text \<open>
  \<open>time.sleep(secs)\<close> changes no value. It raises ValueError for a NaN and for a
  negative length, and OverflowError when the length in nanoseconds does not fit a
  signed 64-bit integer.
\<close>

definition time_sleep :: "pyfloat \<Rightarrow> error + unit" where
  "time_sleep secs =
     (case secs of
        NaN \<Rightarrow> Inl ValueError
      | PInf \<Rightarrow> Inl OverflowError
      | NInf \<Rightarrow> Inl OverflowError
      | Finite x \<Rightarrow>
          if x * 10 ^ 9 \<le> - (2 ^ 63) \<or> 2 ^ 63 \<le> x * 10 ^ 9 then Inl OverflowError
          else if x < 0 then Inl ValueError
          else Inr ())"

text \<open>\<open>int(x)\<close> of a float truncates towards zero and raises for NaN and the infinities.\<close>

definition float_int :: "pyfloat \<Rightarrow> error + int" where
  "float_int x =
     (case x of
        NaN \<Rightarrow> Inl ValueError
      | PInf \<Rightarrow> Inl OverflowError
      | NInf \<Rightarrow> Inl OverflowError
      | Finite r \<Rightarrow> Inr (if 0 \<le> r then \<lfloor>r\<rfloor> else \<lceil>r\<rceil>))"

section \<open>Images\<close>

text \<open>
  The SDK's \<open>Image\<close> wraps a numpy array of numbers. An array is its shape, one length
  per axis, and its elements in row-major order. The notebooks build images of three
  axes (the benchmark, the flows) and of two axes (the classifier's 28 by 28 images).
\<close>

record 'a ndarray =
  shape :: "nat list"
  data :: "'a list"

text \<open>
  What the element type of an array contributes: \<open>halve v\<close> is the element that
  \<open>v / 2\<close> becomes when it is stored back into an array of that type, and \<open>to_int v\<close> is
  \<open>int(v)\<close>.
\<close>

record 'a dtype =
  halve :: "'a \<Rightarrow> 'a"
  to_int :: "'a \<Rightarrow> error + int"

text \<open>
  \<open>np.uint8\<close>, the type of the benchmark's images: the quotient is a float, and storing
  it truncates it.
\<close>

definition uint8 :: "8 word dtype" where
  "uint8 = \<lparr>halve = (\<lambda>v. v div 2), to_int = (\<lambda>v. Inr (uint v))\<rparr>"

text \<open>\<open>np.float64\<close>, the type of the images of \<open>np.random.random\<close>.\<close>

definition float64 :: "(real \<Rightarrow> pyfloat) \<Rightarrow> pyfloat dtype" where
  "float64 rnd =
     \<lparr>halve = (\<lambda>v. case v of Finite x \<Rightarrow> rnd (x / 2) | _ \<Rightarrow> v), to_int = float_int\<rparr>"

section \<open>Ray runtime: BenchmarkCell\<close>

record 'a BenchmarkInputs =
  image_in :: "'a ndarray"
  counter_in :: int

record 'a BenchmarkOutputs =
  image_out :: "'a ndarray"
  counter_out :: int

record BenchmarkParameters =
  delay :: pyfloat

text \<open>\<open>BenchmarkParameters()\<close>: the default delay is \<open>Float(0.1)\<close>, the binary64 nearest to 0.1.\<close>

definition BenchmarkParameters_default :: BenchmarkParameters where
  "BenchmarkParameters_default = \<lparr>delay = Finite (3602879701896397 / 36028797018963968)\<rparr>"

text \<open>The image of shape (1, 1, 3) that the benchmark calls "dummy", with some content.\<close>

definition dummy_image :: "8 word ndarray" where
  "dummy_image = \<lparr>shape = [1, 1, 3], data = [7, 200, 255]\<rparr>"

text \<open>
  \<open>outimage[0, 0, :] = outimage[0, 0, :] / 2\<close>. The index names three axes: an array
  of fewer axes raises IndexError, and so does one whose axis 0 or axis 1 is empty.
  Otherwise the index selects the part of the array at row 0 and column 0, which is the
  first \<open>channels * ...\<close> elements in row-major order, and each of them is halved.
\<close>

definition halve_first_pixel :: "'a dtype \<Rightarrow> 'a ndarray \<Rightarrow> error + 'a ndarray" where
  "halve_first_pixel dt outimage =
     (case shape outimage of
        rows # columns # channels # others \<Rightarrow>
          if rows = 0 \<or> columns = 0 then Inl IndexError
          else
            Inr (outimage\<lparr>data :=
              map (halve dt) (take (prod_list (channels # others)) (data outimage))
              @ drop (prod_list (channels # others)) (data outimage)\<rparr>)
      | _ \<Rightarrow> Inl IndexError)"

text \<open>
  \<open>BenchmarkCell.call\<close> sleeps, halves the first pixel of a copy of the input image
  (the input is a value here, so it is never modified) and adds one to the counter,
  which the field \<open>counter_in: Integer\<close> declares an integer, so that \<open>int\<close> leaves it as
  it is. \<open>dt\<close> is the element type of the image.
\<close>

definition BenchmarkCell_call ::
  "'a dtype \<Rightarrow> BenchmarkParameters \<Rightarrow> 'a BenchmarkInputs \<Rightarrow> error + 'a BenchmarkOutputs" where
  "BenchmarkCell_call dt parameters inputs =
     (case time_sleep (delay parameters) of
        Inl e \<Rightarrow> Inl e
      | Inr _ \<Rightarrow>
          (case halve_first_pixel dt (image_in inputs) of
             Inl e \<Rightarrow> Inl e
           | Inr outimage \<Rightarrow>
               Inr \<lparr>image_out = outimage, counter_out = counter_in inputs + 1\<rparr>))"

text \<open>
  The arrays that \<open>outimage[0, 0, :]\<close> accepts: at least three axes, the first two of
  them not empty.
\<close>

definition selects_0_0 :: "'a ndarray \<Rightarrow> bool" where
  "selects_0_0 img =
     (case shape img of
        rows # columns # channels # others \<Rightarrow> rows \<noteq> 0 \<and> columns \<noteq> 0
      | _ \<Rightarrow> False)"

text \<open>
  Calls of \<open>BenchmarkCell.call\<close> chained on the counter: each step has its own
  parameters and its own image, and takes the counter that the step before returned.
  The first exception ends the chain.
\<close>

fun call_chain ::
  "'a dtype \<Rightarrow> (BenchmarkParameters \<times> 'a ndarray) list \<Rightarrow> int \<Rightarrow> error + int" where
  "call_chain dt [] c = Inr c"
| "call_chain dt ((parameters, img) # steps) c =
     (case BenchmarkCell_call dt parameters \<lparr>image_in = img, counter_in = c\<rparr> of
        Inl e \<Rightarrow> Inl e
      | Inr out \<Rightarrow> call_chain dt steps (counter_out out))"

section \<open>Pipeline declarations\<close>

text \<open>
  A declarative pipeline names its cells (the fields of its \<open>PipelineCells\<close> class,
  in the order of the class) and declares which cell inputs each pipeline input feeds,
  which cell output each pipeline output reads, and the connections from cell outputs
  to cell inputs. A port is a cell together with one of its fields:
  \<open>cells.a.outputs.counter_out\<close> is \<open>(cells_a, outputs_counter_out)\<close>.
\<close>

record ('c, 'i, 'o) DeclarativePipeline =
  cells :: "'c list"
  inputs :: "(string \<times> ('c \<times> 'i) list) list"
  outputs :: "(string \<times> ('c \<times> 'o)) list"
  connections :: "(('c \<times> 'o) \<times> ('c \<times> 'i)) list"











section \<open>Data flow of a benchmarking pipeline\<close>

text \<open>
  Modelled from the spec: the pipeline engine of the SDK, which computes what
  \<open>proc.predict(...).result()\<close> returns and whose code is not in the repository. The
  spec describes a Pipeline as "composing Cells into a computation graph with declared
  external inputs/outputs", and the notebook describes the two graphs ("the pipeline
  input image is connected to each of the 4 cells, counters are chained"). The
  definitions of this section read a declaration as that graph: a cell input takes its
  value from the pipeline input that lists it, or else from the cell output connected
  to it; a cell runs once both of its inputs have a value; an exception of a cell is
  the outcome of the prediction; the result gives each declared output the value that
  its cell produced.
\<close>

datatype 'a pvalue = VImage "'a ndarray" | VInteger int | VFloat pyfloat









section \<open>The warm-up of benchmark\_task\<close>

text \<open>
  \<open>int(v)\<close> of a value that a prediction returns: an integer is itself, a float is
  truncated, and an array converts when it holds exactly one element.
\<close>

definition py_int :: "'a dtype \<Rightarrow> 'a pvalue \<Rightarrow> error + int" where
  "py_int dt v =
     (case v of
        VInteger k \<Rightarrow> Inr k
      | VFloat x \<Rightarrow> float_int x
      | VImage arr \<Rightarrow> (case data arr of [x] \<Rightarrow> to_int dt x | _ \<Rightarrow> Inl TypeError))"

text \<open>
  The warm-up loop of \<open>benchmark_task\<close>: it requests five predictions with counter 0,
  one for each of the first five images, and asserts of each that
  \<open>int(out["counter"]) == 4\<close>. \<open>proc_predict\<close> is the prediction of the inference process
  that \<open>benchmark_task\<close> started before the loop, whatever that process computes. The
  measurements that follow the loop read the clock and are not modelled.
\<close>

fun warmup_loop ::
  "'a dtype \<Rightarrow> ((string \<times> 'a pvalue) list \<Rightarrow> error + (string \<times> 'a pvalue) list) \<Rightarrow>
   'a ndarray list \<Rightarrow> nat list \<Rightarrow> error + unit" where
  "warmup_loop dt proc_predict benchmark_images [] = Inr ()"
| "warmup_loop dt proc_predict benchmark_images (i # rest) =
     (case list_getitem benchmark_images (int i) of
        Inl e \<Rightarrow> Inl e
      | Inr img \<Rightarrow>
          (case proc_predict [(''image'', VImage img), (''counter'', VInteger 0)] of
             Inl e \<Rightarrow> Inl e
           | Inr out \<Rightarrow>
               (case map_of out ''counter'' of
                  None \<Rightarrow> Inl KeyError
                | Some v \<Rightarrow>
                    (case py_int dt v of
                       Inl e \<Rightarrow> Inl e
                     | Inr k \<Rightarrow>
                         if k = 4 then warmup_loop dt proc_predict benchmark_images rest
                         else Inl AssertionError))))"

definition benchmark_task_warmup ::
  "'a dtype \<Rightarrow> ((string \<times> 'a pvalue) list \<Rightarrow> error + (string \<times> 'a pvalue) list) \<Rightarrow>
   'a ndarray list \<Rightarrow> error + unit" where
  "benchmark_task_warmup dt proc_predict benchmark_images =
     warmup_loop dt proc_predict benchmark_images [0..<5]"

section \<open>Flows: DummyDataset\<close>

datatype Point = Point int int
datatype BoundingBox = BoundingBox Point Point
datatype 'img DummySamples = DummySamples 'img
datatype DummyAnnotations = DummyAnnotations BoundingBox

record 'img DummyDataset =
  images :: "'img list"
  bounding_boxes :: "BoundingBox list"

text \<open>
  \<open>DummyDataset(length)\<close> draws one random image per index; \<open>random_image i\<close> is the
  image drawn for index \<open>i\<close>. \<open>range(length)\<close> is empty for a negative length.
\<close>

definition DummyDataset_init :: "(nat \<Rightarrow> 'img) \<Rightarrow> int \<Rightarrow> 'img DummyDataset" where
  "DummyDataset_init random_image len =
     \<lparr>images = map random_image [0..<nat len],
      bounding_boxes = map (\<lambda>i. BoundingBox (Point 0 0) (Point 1 1)) [0..<nat len]\<rparr>"

definition DummyDataset_getitem ::
  "'img DummyDataset \<Rightarrow> int \<Rightarrow> error + 'img DummySamples \<times> DummyAnnotations" where
  "DummyDataset_getitem self index =
     (case list_getitem (images self) index of
        Inl e \<Rightarrow> Inl e
      | Inr img \<Rightarrow>
          (case list_getitem (bounding_boxes self) index of
             Inl e \<Rightarrow> Inl e
           | Inr bbox \<Rightarrow> Inr (DummySamples img, DummyAnnotations bbox)))"

definition DummyDataset_len :: "'img DummyDataset \<Rightarrow> int" where
  "DummyDataset_len self = int (length (images self))"

section \<open>Pipeline drivers: CustomDriver\<close>

record CustomDriverParameters =
  param :: int

text \<open>The attributes \<open>_predictions\<close>, \<open>_params\<close> and \<open>_running\<close> of a driver.\<close>

record CustomDriver =
  predictions :: int
  params :: CustomDriverParameters
  running :: bool

definition CustomDriverParameters_default :: CustomDriverParameters where
  "CustomDriverParameters_default = \<lparr>param = 0\<rparr>"

text \<open>
  \<open>CustomDriver(predictions=10, params=None)\<close>: an argument left out is \<open>None\<close> here.
\<close>

definition CustomDriver_init ::
  "int option \<Rightarrow> CustomDriverParameters option \<Rightarrow> CustomDriver" where
  "CustomDriver_init n ps =
     \<lparr>predictions = (case n of None \<Rightarrow> 10 | Some k \<Rightarrow> k),
      params = (case ps of None \<Rightarrow> CustomDriverParameters_default | Some q \<Rightarrow> q),
      running = False\<rparr>"

definition CustomDriver_resources_request :: "string list" where
  "CustomDriver_resources_request = [''dummy-port'']"

definition CustomDriver_stop :: "CustomDriver \<Rightarrow> CustomDriver" where
  "CustomDriver_stop self = self\<lparr>running := False\<rparr>"

definition CustomDriver_get_parameters :: "CustomDriver \<Rightarrow> CustomDriverParameters" where
  "CustomDriver_get_parameters self = params self"

definition CustomDriver_set_parameters ::
  "CustomDriver \<Rightarrow> CustomDriverParameters \<Rightarrow> CustomDriver" where
  "CustomDriver_set_parameters self parameters = self\<lparr>params := parameters\<rparr>"

text \<open>
  The loop of \<open>run\<close>. \<open>inference_predict i\<close> is the outcome of the prediction requested
  in iteration \<open>i\<close> (its input is random). The runtime calls \<open>stop\<close> from outside the
  loop: \<open>stop_called i\<close> tells whether it has done so by the time \<open>i\<close> iterations have
  passed their test of \<open>_running\<close>, which is when iteration \<open>i\<close> makes its test, or, for
  the number of the last iteration plus one, when \<open>run\<close> is left. The loop returns
  whether it stopped prematurely, and the results; an exception comes with the
  iteration that raised it.
\<close>

fun run_loop ::
  "(nat \<Rightarrow> error + 'r) \<Rightarrow> (nat \<Rightarrow> bool) \<Rightarrow> nat \<Rightarrow> nat \<Rightarrow> 'r list \<Rightarrow>
   error \<times> nat + bool \<times> 'r list" where
  "run_loop inference_predict stop_called i 0 results = Inr (False, results)"
| "run_loop inference_predict stop_called i (Suc n) results =
     (if stop_called i then Inr (True, results)
      else
        (case inference_predict i of
           Inl e \<Rightarrow> Inl (e, i)
         | Inr result \<Rightarrow>
             run_loop inference_predict stop_called (Suc i) n (results @ [result])))"

datatype 'r driver_print =
    Starting_custom_driver
  | Assigned_ports "string list"
  | Prematurely_stopping_test
  | First_result 'r
  | Second_result 'r
  | Average_time_over nat

text \<open>
  \<open>run\<close> returns the driver, what it printed, and the exception that ended it, if
  any. The flag \<open>_running\<close> that it set is still set when \<open>run\<close> is left unless \<open>stop\<close> has
  been called by then. The average it prints is a measured time; only the number of
  predictions it names is kept.
\<close>

definition CustomDriver_run ::
  "CustomDriver \<Rightarrow> (nat \<Rightarrow> error + 'r) \<Rightarrow> (nat \<Rightarrow> bool) \<Rightarrow> string list \<Rightarrow>
   CustomDriver \<times> 'r driver_print list \<times> error option" where
  "CustomDriver_run self inference_predict stop_called resources_ports =
     (case run_loop inference_predict stop_called 0 (nat (predictions self)) [] of
        Inl (e, i) \<Rightarrow>
          (self\<lparr>running := \<not> stop_called (Suc i)\<rparr>,
           [Starting_custom_driver, Assigned_ports resources_ports], Some e)
      | Inr (premature, results) \<Rightarrow>
          (self\<lparr>running := \<not> premature \<and> \<not> stop_called (nat (predictions self))\<rparr>,
           [Starting_custom_driver, Assigned_ports resources_ports]
           @ (if premature then [Prematurely_stopping_test] else [])
           @ (if 2 \<le> length results
              then [First_result (results ! 0), Second_result (results ! 1)] else [])
           @ [Average_time_over (length results)],
           None))"

section \<open>Properties of the Python values\<close>

lemma flt_irrefl: "\<not> flt x x"
  by (cases x) simp_all

lemma fle_not_flt: "fle x t \<Longrightarrow> \<not> flt t x"
  by (cases x; cases t) simp_all

lemma pymin_not_above: "\<not> flt t (pymin x t)"
  by (simp add: pymin_def flt_irrefl)

lemma pymin_le: "fle x t \<Longrightarrow> pymin x t = x"
  by (simp add: pymin_def fle_not_flt)

lemma pymin_Finite: "pymin (Finite x) (Finite t) = Finite (min x t)"
  by (simp add: pymin_def min_def)

lemma pymin_fle: "x \<noteq> NaN \<Longrightarrow> t \<noteq> NaN \<Longrightarrow> fle (pymin x t) t"
  by (cases x; cases t) (simp_all add: pymin_def)

section \<open>SummatorCell\<close>

text \<open>
  C2. For every threshold \<open>t\<close> and operands \<open>a\<close>, \<open>b\<close>, \<open>SummatorCell.call\<close>
  returns the outputs whose sum is \<open>min(a + b, t)\<close>, Python's \<open>min\<close> of the float sum
  and the threshold. The returned sum never exceeds the threshold (\<open>t < sum\<close> is
  false), it equals \<open>a + b\<close> whenever \<open>a + b <= t\<close>, and for a finite sum \<open>s\<close> and a
  finite threshold it is the smaller of the two numbers, which is at most \<open>t\<close>.
\<close>

theorem SummatorCell_call_min:
  "sum_field (SummatorCell_call rnd parameters ins) =
     pymin (fadd rnd (SummatorInputs.op_1 ins) (SummatorInputs.op_2 ins))
       (threshold parameters)
   \<and> \<not> flt (threshold parameters) (sum_field (SummatorCell_call rnd parameters ins))
   \<and> (fle (fadd rnd (SummatorInputs.op_1 ins) (SummatorInputs.op_2 ins))
         (threshold parameters) \<longrightarrow>
       sum_field (SummatorCell_call rnd parameters ins) =
         fadd rnd (SummatorInputs.op_1 ins) (SummatorInputs.op_2 ins))
   \<and> (\<forall>s t. fadd rnd (SummatorInputs.op_1 ins) (SummatorInputs.op_2 ins) = Finite s
         \<and> threshold parameters = Finite t \<longrightarrow>
       sum_field (SummatorCell_call rnd parameters ins) = Finite (min s t)
       \<and> fle (sum_field (SummatorCell_call rnd parameters ins)) (threshold parameters))"
proof -
  let ?x = "fadd rnd (SummatorInputs.op_1 ins) (SummatorInputs.op_2 ins)"
  let ?t = "threshold parameters"
  have out: "sum_field (SummatorCell_call rnd parameters ins) = pymin ?x ?t"
    by (simp add: SummatorCell_call_def)
  have "\<not> flt ?t (pymin ?x ?t)"
    by (rule pymin_not_above)
  moreover have "fle ?x ?t \<longrightarrow> pymin ?x ?t = ?x"
    by (simp add: pymin_le)
  moreover have "\<forall>s t. ?x = Finite s \<and> ?t = Finite t \<longrightarrow>
      pymin ?x ?t = Finite (min s t) \<and> fle (pymin ?x ?t) ?t"
    by (simp add: pymin_Finite)
  ultimately show ?thesis
    unfolding out by blast
qed

text \<open>
  The notebook's own request: operands 2.0 and 3.0 under the default threshold 100.0
  (2.0 + 3.0 is exact in binary64).
\<close>

theorem SummatorCell_call_min_witness:
  "fle (fadd Finite (Finite 2) (Finite 3)) (Finite 100)
   \<and> sum_field (SummatorCell_call Finite SummatorParameters_default
        \<lparr>SummatorInputs.op_1 = Finite 2, op_2 = Finite 3\<rparr>) = Finite 5
   \<and> \<not> flt (Finite 100) (sum_field (SummatorCell_call Finite SummatorParameters_default
        \<lparr>SummatorInputs.op_1 = Finite 2, op_2 = Finite 3\<rparr>))"
  using SummatorCell_call_min [of Finite SummatorParameters_default
      "\<lparr>SummatorInputs.op_1 = Finite 2, op_2 = Finite 3\<rparr>"]
  by (simp add: SummatorParameters_default_def pymin_Finite)

section \<open>The stateful MyCell\<close>

lemma MyCell_calls_Cons:
  "MyCell_calls state (r # rs) =
     (fst (MyCell_call state (fst r) (snd r)) #
        fst (MyCell_calls (snd (MyCell_call state (fst r) (snd r))) rs),
      snd (MyCell_calls (snd (MyCell_call state (fst r) (snd r))) rs))"
  by (cases r) (simp add: case_prod_unfold)

lemma MyCell_call_state:
  "MyState.counter (snd (MyCell_call state p i)) = MyState.counter state + 1"
  by (simp add: MyCell_call_def Let_def)

lemma MyCell_call_outputs:
  "MyOutputs.counter (fst (MyCell_call state p i)) = MyState.counter state + 1"
  "MyOutputs.integer (fst (MyCell_call state p i)) = MyInputs.integer i + adder p"
  by (simp_all add: MyCell_call_def Let_def)

lemma MyCell_calls_counter:
  "MyState.counter (snd (MyCell_calls state requests)) =
     MyState.counter state + int (length requests)"
  by (induction requests arbitrary: state) (simp_all add: MyCell_calls_Cons MyCell_call_state)

lemma MyCell_calls_length: "length (fst (MyCell_calls state requests)) = length requests"
  by (induction requests arbitrary: state) (simp_all add: MyCell_calls_Cons)

lemma MyCell_calls_nth:
  "k < length requests \<Longrightarrow>
   MyOutputs.counter (fst (MyCell_calls state requests) ! k) = MyState.counter state + int k + 1
   \<and> MyOutputs.integer (fst (MyCell_calls state requests) ! k) =
     MyInputs.integer (snd (requests ! k)) + adder (fst (requests ! k))"
proof (induction requests arbitrary: state k)
  case Nil
  then show ?case by simp
next
  case (Cons r rs)
  show ?case
  proof (cases k)
    case 0
    then show ?thesis by (simp add: MyCell_calls_Cons MyCell_call_outputs)
  next
    case (Suc j)
    with Cons.prems have "j < length rs" by simp
    from Cons.IH [OF this, of "snd (MyCell_call state (fst r) (snd r))"] show ?thesis
      by (simp add: Suc MyCell_calls_Cons MyCell_call_state)
  qed
qed

text \<open>
  C6. Every invocation of \<open>MyCell.call\<close> increments the state's counter by exactly one
  and returns outputs whose integer is \<open>inputs.integer + parameters.adder\<close> and whose
  counter is the updated state counter. Hence after \<open>n\<close> invocations on the default
  state (counter 0) the state counter is \<open>n\<close>, and the counter returned by the \<open>n\<close>-th
  invocation (the one at index \<open>n - 1\<close>) is \<open>n\<close>.
\<close>

theorem MyCell_call_counts:
  "MyState.counter (snd (MyCell_call state parameters ins)) = MyState.counter state + 1
   \<and> MyOutputs.integer (fst (MyCell_call state parameters ins)) =
       MyInputs.integer ins + adder parameters
   \<and> MyOutputs.counter (fst (MyCell_call state parameters ins)) =
       MyState.counter (snd (MyCell_call state parameters ins))
   \<and> MyState.counter (snd (MyCell_calls MyState_default requests)) = int (length requests)
   \<and> length (fst (MyCell_calls MyState_default requests)) = length requests
   \<and> (\<forall>k. k < length requests \<longrightarrow>
         MyOutputs.counter (fst (MyCell_calls MyState_default requests) ! k) = int k + 1)"
proof -
  have "MyState.counter (snd (MyCell_calls MyState_default requests)) = int (length requests)"
    by (simp add: MyCell_calls_counter MyState_default_def)
  moreover have "\<forall>k. k < length requests \<longrightarrow>
      MyOutputs.counter (fst (MyCell_calls MyState_default requests) ! k) = int k + 1"
    by (simp add: MyCell_calls_nth MyState_default_def)
  ultimately show ?thesis
    by (simp add: MyCell_call_state MyCell_call_outputs MyCell_calls_length)
qed

text \<open>Three invocations with the default adder: the third returns counter 3.\<close>

theorem MyCell_call_counts_witness:
  "(2::nat) < length [(MyParameters_default, \<lparr>MyInputs.integer = 1\<rparr>),
       (MyParameters_default, \<lparr>MyInputs.integer = 1\<rparr>),
       (MyParameters_default, \<lparr>MyInputs.integer = 5\<rparr>)]
   \<and> MyOutputs.counter (fst (MyCell_calls MyState_default
       [(MyParameters_default, \<lparr>MyInputs.integer = 1\<rparr>),
        (MyParameters_default, \<lparr>MyInputs.integer = 1\<rparr>),
        (MyParameters_default, \<lparr>MyInputs.integer = 5\<rparr>)]) ! 2) = 3
   \<and> MyState.counter (snd (MyCell_calls MyState_default
       [(MyParameters_default, \<lparr>MyInputs.integer = 1\<rparr>),
        (MyParameters_default, \<lparr>MyInputs.integer = 1\<rparr>),
        (MyParameters_default, \<lparr>MyInputs.integer = 5\<rparr>)])) = 3"
  using MyCell_call_counts [of MyState_default MyParameters_default "\<lparr>MyInputs.integer = 1\<rparr>"
      "[(MyParameters_default, \<lparr>MyInputs.integer = 1\<rparr>),
        (MyParameters_default, \<lparr>MyInputs.integer = 1\<rparr>),
        (MyParameters_default, \<lparr>MyInputs.integer = 5\<rparr>)]"]
  by simp

section \<open>BenchmarkCell and the two benchmarking pipelines\<close>






lemma halve_first_pixel_iff:
  "(\<exists>out. halve_first_pixel dt img = Inr out) = selects_0_0 img"
  by (auto simp: halve_first_pixel_def selects_0_0_def split: list.splits)

lemma halve_first_pixel_shape:
  "halve_first_pixel dt img = Inr out \<Longrightarrow>
   shape out = shape img \<and> length (data out) = length (data img)"
  by (auto simp: halve_first_pixel_def split: list.splits if_splits)



lemma time_sleep_default: "time_sleep (delay BenchmarkParameters_default) = Inr ()"
  by (simp add: BenchmarkParameters_default_def time_sleep_def)


lemma halve_first_pixel_dummy:
  "halve_first_pixel uint8 dummy_image = Inr \<lparr>shape = [1, 1, 3], data = [3, 100, 127]\<rparr>"
  by (simp add: halve_first_pixel_def dummy_image_def uint8_def)










section \<open>Chained calls of BenchmarkCell.call\<close>

lemma BenchmarkCell_call_counter:
  "BenchmarkCell_call dt parameters ins = Inr out \<Longrightarrow> counter_out out = counter_in ins + 1"
  by (auto simp: BenchmarkCell_call_def split: sum.splits)

lemma BenchmarkCell_call_returns:
  "(\<exists>out. BenchmarkCell_call dt parameters ins = Inr out)
     = (time_sleep (delay parameters) = Inr () \<and> selects_0_0 (image_in ins))"
  using halve_first_pixel_iff [of dt "image_in ins"]
  by (auto simp: BenchmarkCell_call_def split: sum.splits)

lemma call_chain_counter:
  "call_chain dt steps c = Inr k \<Longrightarrow> k = c + int (length steps)"
proof (induction steps arbitrary: c)
  case Nil
  then show ?case by simp
next
  case (Cons s steps)
  obtain p img where s: "s = (p, img)" by (cases s)
  from Cons.prems obtain out where
    out: "BenchmarkCell_call dt p \<lparr>image_in = img, counter_in = c\<rparr> = Inr out"
    and rest: "call_chain dt steps (counter_out out) = Inr k"
    by (auto simp: s split: sum.splits)
  from Cons.IH [OF rest] BenchmarkCell_call_counter [OF out] show ?case by simp
qed

lemma call_chain_returns:
  "(\<exists>k. call_chain dt steps c = Inr k)
     = (\<forall>s\<in>set steps. time_sleep (delay (fst s)) = Inr () \<and> selects_0_0 (snd s))"
proof (induction steps arbitrary: c)
  case Nil
  then show ?case by simp
next
  case (Cons s steps)
  obtain p img where s: "s = (p, img)" by (cases s)
  show ?case
  proof (cases "BenchmarkCell_call dt p \<lparr>image_in = img, counter_in = c\<rparr>")
    case (Inl e)
    then have "\<not> (time_sleep (delay p) = Inr () \<and> selects_0_0 img)"
      using BenchmarkCell_call_returns [of dt p "\<lparr>image_in = img, counter_in = c\<rparr>"] by auto
    with Inl show ?thesis by (auto simp: s)
  next
    case (Inr out)
    then have "time_sleep (delay p) = Inr () \<and> selects_0_0 img"
      using BenchmarkCell_call_returns [of dt p "\<lparr>image_in = img, counter_in = c\<rparr>"] by auto
    with Inr Cons.IH [of "counter_out out"] show ?thesis by (simp add: s)
  qed
qed

section \<open>The assertion of benchmark\_task\<close>

lemma upt_5: "[0..<5] = [0, 1, 2, 3, 4]"
  by (simp add: upt_rec)

lemma list_getitem_nat: "i < length xs \<Longrightarrow> list_getitem xs (int i) = Inr (xs ! i)"
  by (simp add: list_getitem_def)

lemma warmup_loop_passes:
  assumes "\<forall>i\<in>set is. i < length benchmark_images
      \<and> (\<exists>out v. proc_predict
             [(''image'', VImage (benchmark_images ! i)), (''counter'', VInteger 0)] = Inr out
           \<and> map_of out ''counter'' = Some v \<and> py_int dt v = Inr 4)"
  shows "warmup_loop dt proc_predict benchmark_images is = Inr ()"
  using assms by (induction "is") (auto simp add: list_getitem_nat)

lemma warmup_first_fails:
  assumes "benchmark_images \<noteq> []"
    and "proc_predict [(''image'', VImage (benchmark_images ! 0)), (''counter'', VInteger 0)]
           = Inr out"
    and "map_of out ''counter'' = Some v" and "py_int dt v = Inr k" and "k \<noteq> 4"
  shows "benchmark_task_warmup dt proc_predict benchmark_images = Inl AssertionError"
  using assms by (simp add: benchmark_task_warmup_def upt_5 list_getitem_def)

text \<open>
  C3 (as amended). Testable properties of the code can be derived, and the benchmark
  asserts one itself. Calls of \<open>BenchmarkCell.call\<close> chained on the counter return,
  whenever they all return, the counter input plus the number of calls: four calls
  give \<open>c + 4\<close>, and 4 for counter input 0. They all return exactly when \<open>time.sleep\<close>
  accepts the delay of every call and every image is an array of at least three axes
  whose first two are not empty. For at least five images, the five assertions
  \<open>int(out["counter"]) == 4\<close> of \<open>benchmark_task\<close> pass when each of the five predictions
  returns a counter that \<open>int\<close> converts to 4; and they fail with AssertionError when the
  first prediction returns a counter that \<open>int\<close> converts to any other integer.
\<close>

theorem benchmark_task_warmup_asserts:
  "(call_chain dt steps c = Inr n \<longrightarrow> n = c + int (length steps))
   \<and> ((\<exists>n. call_chain dt steps c = Inr n)
        = (\<forall>s\<in>set steps. time_sleep (delay (fst s)) = Inr () \<and> selects_0_0 (snd s)))
   \<and> (5 \<le> length benchmark_images
        \<and> (\<forall>i. i < 5 \<longrightarrow>
              (\<exists>out v. proc_predict
                   [(''image'', VImage (benchmark_images ! i)), (''counter'', VInteger 0)]
                   = Inr out
                 \<and> map_of out ''counter'' = Some v \<and> py_int dt v = Inr 4)) \<longrightarrow>
       benchmark_task_warmup dt proc_predict benchmark_images = Inr ())
   \<and> (benchmark_images \<noteq> []
        \<and> proc_predict [(''image'', VImage (benchmark_images ! 0)), (''counter'', VInteger 0)]
            = Inr out
        \<and> map_of out ''counter'' = Some v \<and> py_int dt v = Inr k \<and> k \<noteq> 4 \<longrightarrow>
       benchmark_task_warmup dt proc_predict benchmark_images = Inl AssertionError)"
proof -
  have "benchmark_task_warmup dt proc_predict benchmark_images = Inr ()"
    if "5 \<le> length benchmark_images"
      and "\<forall>i. i < 5 \<longrightarrow>
              (\<exists>out v. proc_predict
                   [(''image'', VImage (benchmark_images ! i)), (''counter'', VInteger 0)]
                   = Inr out
                 \<and> map_of out ''counter'' = Some v \<and> py_int dt v = Inr 4)"
    unfolding benchmark_task_warmup_def
    by (rule warmup_loop_passes) (use that in auto)
  then show ?thesis
    using call_chain_counter [of dt steps c n] call_chain_returns [of dt steps c]
      warmup_first_fails [of benchmark_images proc_predict out v dt k]
    by blast
qed

text \<open>
  Four calls with default parameters on the dummy image, from counter 0. A process that
  answers with the counter of that chain passes the assertions; so does one that
  answers 4.5, since \<open>int(4.5)\<close> is 4; one that answers 3 fails them.
\<close>

theorem benchmark_task_warmup_asserts_witness:
  "call_chain uint8
       [(BenchmarkParameters_default, dummy_image), (BenchmarkParameters_default, dummy_image),
        (BenchmarkParameters_default, dummy_image), (BenchmarkParameters_default, dummy_image)] 0
     = Inr 4
   \<and> 5 \<le> length (replicate 5 dummy_image)
   \<and> benchmark_task_warmup uint8
        (\<lambda>ext. case call_chain uint8
                   [(BenchmarkParameters_default, dummy_image),
                    (BenchmarkParameters_default, dummy_image),
                    (BenchmarkParameters_default, dummy_image),
                    (BenchmarkParameters_default, dummy_image)] 0 of
                 Inl e \<Rightarrow> Inl e | Inr n \<Rightarrow> Inr [(''counter'', VInteger n)])
        (replicate 5 dummy_image) = Inr ()
   \<and> benchmark_task_warmup uint8 (\<lambda>ext. Inr [(''counter'', VFloat (Finite (9 / 2)))])
        (replicate 5 dummy_image) = Inr ()
   \<and> py_int uint8 (VInteger 3) = Inr 3 \<and> (3::int) \<noteq> 4
   \<and> benchmark_task_warmup uint8 (\<lambda>ext. Inr [(''counter'', VInteger 3)])
        (replicate 5 dummy_image) = Inl AssertionError"
proof -
  let ?steps =
    "[(BenchmarkParameters_default, dummy_image), (BenchmarkParameters_default, dummy_image),
      (BenchmarkParameters_default, dummy_image), (BenchmarkParameters_default, dummy_image)]"
  have chain: "call_chain uint8 ?steps 0 = Inr 4"
    by (simp add: BenchmarkCell_call_def time_sleep_default halve_first_pixel_dummy)
  have half: "py_int uint8 (VFloat (Finite (9 / 2))) = Inr 4"
    by (simp add: py_int_def float_int_def)
  have three: "py_int uint8 (VInteger 3) = Inr 3"
    by (simp add: py_int_def)
  have five: "5 \<le> length (replicate 5 dummy_image)" "replicate 5 dummy_image \<noteq> []"
    by simp_all
  show ?thesis
    using chain half three five
      benchmark_task_warmup_asserts [of uint8 ?steps 0 4 "replicate 5 dummy_image"
        "\<lambda>ext. case call_chain uint8 ?steps 0 of
                 Inl e \<Rightarrow> Inl e | Inr n \<Rightarrow> Inr [(''counter'', VInteger n)]"
        "[(''counter'', VInteger 3)]" "VInteger 3" 3]
      benchmark_task_warmup_asserts [of uint8 ?steps 0 4 "replicate 5 dummy_image"
        "\<lambda>ext. Inr [(''counter'', VFloat (Finite (9 / 2)))]"
        "[(''counter'', VInteger 3)]" "VInteger 3" 3]
      benchmark_task_warmup_asserts [of uint8 ?steps 0 4 "replicate 5 dummy_image"
        "\<lambda>ext. Inr [(''counter'', VInteger 3)]"
        "[(''counter'', VInteger 3)]" "VInteger 3" 3]
    by (simp add: py_int_def)
qed

text \<open>
  The claim as stated fails: here are input/output relations of code defined in the
  notebooks that a test can assert, evaluated on the dummy image. Four chained calls
  of \<open>BenchmarkCell.call\<close> take counter 0 to counter 4; the benchmark's assertion passes
  for a process that returns counter 4 and fails for one that returns counter 5.
\<close>

theorem testable_property_counterexample:
  "call_chain uint8
       [(BenchmarkParameters_default, dummy_image), (BenchmarkParameters_default, dummy_image),
        (BenchmarkParameters_default, dummy_image), (BenchmarkParameters_default, dummy_image)] 0
     = Inr 4
   \<and> benchmark_task_warmup uint8 (\<lambda>ext. Inr [(''counter'', VInteger 4)])
       [dummy_image, dummy_image, dummy_image, dummy_image, dummy_image] = Inr ()
   \<and> benchmark_task_warmup uint8 (\<lambda>ext. Inr [(''counter'', VInteger 5)])
       [dummy_image, dummy_image, dummy_image, dummy_image, dummy_image]
       = Inl AssertionError"
  by (simp add: BenchmarkCell_call_def time_sleep_default halve_first_pixel_dummy
      benchmark_task_warmup_def upt_5 list_getitem_def py_int_def)

section \<open>Connections between cells\<close>



section \<open>DummyDataset and MyState\<close>

lemma DummyDataset_lengths:
  "length (images (DummyDataset_init random_image len)) = nat len"
  "length (bounding_boxes (DummyDataset_init random_image len)) = nat len"
  by (simp_all add: DummyDataset_init_def)

lemma DummyDataset_getitem_in:
  assumes "0 \<le> index" and "index < len"
  shows "DummyDataset_getitem (DummyDataset_init random_image len) index =
     Inr (DummySamples (random_image (nat index)),
          DummyAnnotations (BoundingBox (Point 0 0) (Point 1 1)))"
  using assms by (simp add: DummyDataset_getitem_def DummyDataset_init_def list_getitem_def)

lemma DummyDataset_getitem_neg:
  assumes "index < 0" and "- len \<le> index"
  shows "DummyDataset_getitem (DummyDataset_init random_image len) index =
     Inr (DummySamples (random_image (nat (index + len))),
          DummyAnnotations (BoundingBox (Point 0 0) (Point 1 1)))"
  using assms by (simp add: DummyDataset_getitem_def DummyDataset_init_def list_getitem_def)

lemma DummyDataset_getitem_out:
  assumes "max 0 len \<le> index \<or> index < - max 0 len"
  shows "DummyDataset_getitem (DummyDataset_init random_image len) index = Inl IndexError"
  using assms
  by (auto simp add: DummyDataset_getitem_def DummyDataset_init_def list_getitem_def)

text \<open>
  C4 (as amended). The records of the notebooks are declared on the SDK's base types,
  but two of them carry a rule of the repository's own. \<open>DummyDataset(length)\<close> holds as
  many bounding boxes as images, namely \<open>max(length, 0)\<close>, which is what \<open>__len__\<close>
  returns; \<open>__getitem__\<close> returns the image and the box of an index from \<open>-length\<close> up to
  \<open>length - 1\<close> and raises IndexError for any other. And the counter of \<open>MyState\<close> is
  incremented by one in every \<open>MyCell.call\<close>.
\<close>

theorem DummyDataset_length_invariant:
  "length (bounding_boxes (DummyDataset_init random_image len))
     = length (images (DummyDataset_init random_image len))
   \<and> DummyDataset_len (DummyDataset_init random_image len) = max 0 len
   \<and> (\<forall>index. 0 \<le> index \<and> index < len \<longrightarrow>
        DummyDataset_getitem (DummyDataset_init random_image len) index =
          Inr (DummySamples (random_image (nat index)),
               DummyAnnotations (BoundingBox (Point 0 0) (Point 1 1))))
   \<and> (\<forall>index. index < 0 \<and> - len \<le> index \<longrightarrow>
        DummyDataset_getitem (DummyDataset_init random_image len) index =
          Inr (DummySamples (random_image (nat (index + len))),
               DummyAnnotations (BoundingBox (Point 0 0) (Point 1 1))))
   \<and> (\<forall>index. max 0 len \<le> index \<or> index < - max 0 len \<longrightarrow>
        DummyDataset_getitem (DummyDataset_init random_image len) index = Inl IndexError)
   \<and> MyState.counter (snd (MyCell_call state parameters ins)) = MyState.counter state + 1"
  by (simp add: DummyDataset_lengths DummyDataset_len_def DummyDataset_getitem_in
      DummyDataset_getitem_neg DummyDataset_getitem_out MyCell_call_state)

text \<open>\<open>DummyDataset(80)\<close>, the training set of the notebook, at its last index.\<close>

theorem DummyDataset_length_invariant_witness:
  "(0::int) \<le> 79 \<and> (79::int) < 80
   \<and> DummyDataset_getitem (DummyDataset_init (\<lambda>i. i) 80) 79 =
       Inr (DummySamples 79, DummyAnnotations (BoundingBox (Point 0 0) (Point 1 1)))
   \<and> DummyDataset_getitem (DummyDataset_init (\<lambda>i. i) 80) (- 1) =
       Inr (DummySamples 79, DummyAnnotations (BoundingBox (Point 0 0) (Point 1 1)))
   \<and> DummyDataset_getitem (DummyDataset_init (\<lambda>i. i) 80) 80 = Inl IndexError"
  using DummyDataset_length_invariant [of "\<lambda>i. i" 80 MyState_default MyParameters_default
      "\<lparr>MyInputs.integer = 1\<rparr>"]
  by simp

text \<open>
  The claim as stated fails: \<open>DummyDataset(80)\<close> holds 80 images and 80 bounding boxes
  and reports the length 80, and one call of \<open>MyCell.call\<close> on the default state takes
  the counter of the state from 0 to 1.
\<close>

theorem DummyDataset_length_counterexample:
  "length (images (DummyDataset_init (\<lambda>i. i) 80)) = 80
   \<and> length (bounding_boxes (DummyDataset_init (\<lambda>i. i) 80)) = 80
   \<and> DummyDataset_len (DummyDataset_init (\<lambda>i. i) 80) = 80
   \<and> MyState.counter MyState_default = 0
   \<and> MyState.counter (snd (MyCell_call MyState_default MyParameters_default
        \<lparr>MyInputs.integer = 1\<rparr>)) = 1"
  by (simp add: DummyDataset_init_def DummyDataset_len_def MyCell_call_def MyState_default_def)

section \<open>CustomDriver\<close>

lemma run_loop_completes:
  assumes "\<forall>j. j < n \<longrightarrow> \<not> stop_called (i + j)"
    and "\<forall>j. j < n \<longrightarrow> inference_predict (i + j) = Inr (res (i + j))"
  shows "run_loop inference_predict stop_called i n results
     = Inr (False, results @ map res [i..<i + n])"
  using assms
proof (induction n arbitrary: i results)
  case 0
  then show ?case by simp
next
  case (Suc n)
  have here: "\<not> stop_called i" "inference_predict i = Inr (res i)"
    using Suc.prems(1) [rule_format, of 0] Suc.prems(2) [rule_format, of 0] by simp_all
  have "\<forall>j. j < n \<longrightarrow> \<not> stop_called (Suc i + j)"
    using Suc.prems(1) [rule_format, of "Suc j" for j] by simp
  moreover have "\<forall>j. j < n \<longrightarrow> inference_predict (Suc i + j) = Inr (res (Suc i + j))"
    using Suc.prems(2) [rule_format, of "Suc j" for j] by simp
  ultimately have "run_loop inference_predict stop_called (Suc i) n (results @ [res i])
     = Inr (False, (results @ [res i]) @ map res [Suc i..<Suc i + n])"
    by (rule Suc.IH)
  then show ?case
    using here by (simp add: upt_rec [of i])
qed

lemma run_loop_stops:
  assumes "k < n" and "\<forall>j. j < k \<longrightarrow> \<not> stop_called (i + j)" and "stop_called (i + k)"
    and "\<forall>j. j < k \<longrightarrow> inference_predict (i + j) = Inr (res (i + j))"
  shows "run_loop inference_predict stop_called i n results
     = Inr (True, results @ map res [i..<i + k])"
  using assms
proof (induction n arbitrary: i k results)
  case 0
  then show ?case by simp
next
  case (Suc n)
  show ?case
  proof (cases k)
    case 0
    with Suc.prems show ?thesis by simp
  next
    case (Suc k')
    have here: "\<not> stop_called i" "inference_predict i = Inr (res i)"
      using Suc.prems(2) [rule_format, of 0] Suc.prems(4) [rule_format, of 0] Suc by simp_all
    have "k' < n" using Suc.prems(1) Suc by simp
    moreover have "\<forall>j. j < k' \<longrightarrow> \<not> stop_called (Suc i + j)"
      using Suc.prems(2) [rule_format, of "Suc j" for j] Suc by simp
    moreover have "stop_called (Suc i + k')"
      using Suc.prems(3) Suc by simp
    moreover have "\<forall>j. j < k' \<longrightarrow> inference_predict (Suc i + j) = Inr (res (Suc i + j))"
      using Suc.prems(4) [rule_format, of "Suc j" for j] Suc by simp
    ultimately have "run_loop inference_predict stop_called (Suc i) n (results @ [res i])
       = Inr (True, (results @ [res i]) @ map res [Suc i..<Suc i + k'])"
      by (rule Suc.IH)
    then show ?thesis
      using here Suc by (simp add: upt_rec [of i])
  qed
qed

text \<open>
  C5 (as amended). \<open>predict\<close>, \<open>add_driver\<close>, \<open>start_inference\<close> and the flows' \<open>start\<close> and
  \<open>updates\<close>, as the notebooks invoke them, are calls into the SDK. But the repository
  defines a component with bodies of its own, CustomDriver: \<open>set_parameters\<close> followed by
  \<open>get_parameters\<close> returns the parameters set and leaves the rest of the driver alone;
  a new driver is not running, and \<open>stop\<close> clears the running flag; \<open>run\<close> sets the
  flag and, when every prediction succeeds, performs exactly \<open>predictions\<close> predictions
  if \<open>stop\<close> is never called, and exactly \<open>k\<close> predictions, before announcing that it
  stops prematurely, if \<open>stop\<close> is first seen at iteration \<open>k\<close>.
\<close>

theorem CustomDriver_behaviour:
  "CustomDriver_get_parameters (CustomDriver_set_parameters self q) = q
   \<and> predictions (CustomDriver_set_parameters self q) = predictions self
   \<and> running (CustomDriver_set_parameters self q) = running self
   \<and> \<not> running (CustomDriver_stop self)
   \<and> \<not> running (CustomDriver_init n ps)
   \<and> predictions (CustomDriver_init None ps) = 10
   \<and> CustomDriver_get_parameters (CustomDriver_init n None) = CustomDriverParameters_default
   \<and> CustomDriver_get_parameters (CustomDriver_init n (Some q)) = q
   \<and> ((\<forall>i. \<not> stop_called i) \<and> (\<forall>i. inference_predict i = Inr (res i)) \<longrightarrow>
        CustomDriver_run self inference_predict stop_called ports =
          (self\<lparr>running := True\<rparr>,
           [Starting_custom_driver, Assigned_ports ports]
           @ (if 2 \<le> nat (predictions self)
              then [First_result (res 0), Second_result (res 1)] else [])
           @ [Average_time_over (nat (predictions self))],
           None))
   \<and> (k < nat (predictions self) \<and> (\<forall>i. i < k \<longrightarrow> \<not> stop_called i) \<and> stop_called k
        \<and> (\<forall>i. inference_predict i = Inr (res i)) \<longrightarrow>
        CustomDriver_run self inference_predict stop_called ports =
          (self\<lparr>running := False\<rparr>,
           [Starting_custom_driver, Assigned_ports ports, Prematurely_stopping_test]
           @ (if 2 \<le> k then [First_result (res 0), Second_result (res 1)] else [])
           @ [Average_time_over k],
           None))"
proof -
  have full: "CustomDriver_run self inference_predict stop_called ports =
          (self\<lparr>running := True\<rparr>,
           [Starting_custom_driver, Assigned_ports ports]
           @ (if 2 \<le> nat (predictions self)
              then [First_result (res 0), Second_result (res 1)] else [])
           @ [Average_time_over (nat (predictions self))],
           None)"
    if "\<forall>i. \<not> stop_called i" and "\<forall>i. inference_predict i = Inr (res i)"
  proof -
    have "run_loop inference_predict stop_called 0 (nat (predictions self)) []
        = Inr (False, [] @ map res [0..<0 + nat (predictions self)])"
      by (rule run_loop_completes) (simp_all add: that)
    then show ?thesis
      using that(1) by (simp add: CustomDriver_run_def)
  qed
  have part: "CustomDriver_run self inference_predict stop_called ports =
          (self\<lparr>running := False\<rparr>,
           [Starting_custom_driver, Assigned_ports ports, Prematurely_stopping_test]
           @ (if 2 \<le> k then [First_result (res 0), Second_result (res 1)] else [])
           @ [Average_time_over k],
           None)"
    if "k < nat (predictions self)" and "\<forall>i. i < k \<longrightarrow> \<not> stop_called i" and "stop_called k"
      and "\<forall>i. inference_predict i = Inr (res i)"
  proof -
    have "run_loop inference_predict stop_called 0 (nat (predictions self)) []
        = Inr (True, [] @ map res [0..<0 + k])"
      by (rule run_loop_stops) (simp_all add: that)
    then show ?thesis
      by (simp add: CustomDriver_run_def)
  qed
  show ?thesis
    using full part
    by (simp add: CustomDriver_get_parameters_def CustomDriver_set_parameters_def
        CustomDriver_stop_def CustomDriver_init_def)
qed

text \<open>
  \<open>CustomDriver(predictions=1000)\<close>, as the notebook adds it, stopped at the third
  iteration; and a driver of three predictions that is never stopped.
\<close>

theorem CustomDriver_behaviour_witness:
  "(2::nat) < nat (predictions (CustomDriver_init (Some 1000) None))
   \<and> CustomDriver_run (CustomDriver_init (Some 1000) None) (\<lambda>i. Inr (int i)) (\<lambda>i. i = 2) [''8080'']
     = (CustomDriver_init (Some 1000) None,
        [Starting_custom_driver, Assigned_ports [''8080''], Prematurely_stopping_test,
         First_result 0, Second_result 1, Average_time_over 2], None)
   \<and> CustomDriver_run (CustomDriver_init (Some 3) None) (\<lambda>i. Inr (int i)) (\<lambda>i. False) [''8080'']
     = ((CustomDriver_init (Some 3) None)\<lparr>running := True\<rparr>,
        [Starting_custom_driver, Assigned_ports [''8080''],
         First_result 0, Second_result 1, Average_time_over 3], None)"
proof -
  have a: "(2::nat) < nat (predictions (CustomDriver_init (Some 1000) None))"
    by (simp add: CustomDriver_init_def)
  have b: "\<forall>i. i < (2::nat) \<longrightarrow> \<not> (i = 2)" by simp
  have c: "nat (predictions (CustomDriver_init (Some 3) None)) = 3"
    by (simp add: CustomDriver_init_def)
  have d: "(CustomDriver_init (Some 1000) None)\<lparr>running := False\<rparr> = CustomDriver_init (Some 1000) None"
    by (simp add: CustomDriver_init_def)
  show ?thesis
    using a b
      CustomDriver_behaviour [of "CustomDriver_init (Some 1000) None" "\<lparr>param = 7\<rparr>" "Some 1000" None
        "\<lambda>i. i = 2" "\<lambda>i. Inr (int i)" int "[''8080'']" 2]
      CustomDriver_behaviour [of "CustomDriver_init (Some 3) None" "\<lparr>param = 7\<rparr>" "Some 3" None
        "\<lambda>i. False" "\<lambda>i. Inr (int i)" int "[''8080'']" 0]
    by (simp add: c d)
qed

text \<open>
  The claim as stated fails: \<open>set_parameters\<close>, \<open>get_parameters\<close>, \<open>stop\<close> and \<open>run\<close> of
  CustomDriver have bodies in the notebook, evaluated here.
\<close>

theorem CustomDriver_counterexample:
  "CustomDriver_get_parameters
     (CustomDriver_set_parameters (CustomDriver_init (Some 1000) None) \<lparr>param = 7\<rparr>) = \<lparr>param = 7\<rparr>
   \<and> \<not> running (CustomDriver_stop ((CustomDriver_init (Some 1000) None)\<lparr>running := True\<rparr>))
   \<and> CustomDriver_run (CustomDriver_init (Some 3) None) (\<lambda>i. Inr (int i)) (\<lambda>i. False) [''8080'']
     = ((CustomDriver_init (Some 3) None)\<lparr>running := True\<rparr>,
        [Starting_custom_driver, Assigned_ports [''8080''],
         First_result 0, Second_result 1, Average_time_over 3], None)"
  by (simp add: CustomDriver_get_parameters_def CustomDriver_set_parameters_def
      CustomDriver_stop_def CustomDriver_init_def CustomDriver_run_def numeral_3_eq_3)

section \<open>What the cells compute\<close>

lemma fmul_commute: "fmul rnd x y = fmul rnd y x"
  by (cases x; cases y) (simp_all add: mult.commute)

text \<open>
  C1 (as amended). The cell classes are declared on the SDK's base classes and their
  \<open>process_parameters\<close> methods return the parameters unchanged, but their \<open>call\<close>
  methods compute: \<open>MultiplierCell.call\<close> returns the product of its operands (the same
  for either order of the operands), \<open>SummatorCell.call\<close> the minimum of their sum and
  the threshold, and \<open>BenchmarkCell.call\<close>, when it returns, the counter plus one and
  the image with its first pixel halved, of the same shape as the input image.
\<close>

theorem cells_compute:
  "SummatorCell_process_parameters sp = sp
   \<and> MultiplierCell_process_parameters mp = mp
   \<and> product (MultiplierCell_call rnd mp mi)
       = fmul rnd (MultiplierInputs.op_1 mi) (MultiplierInputs.op_2 mi)
   \<and> MultiplierCell_call rnd mp \<lparr>MultiplierInputs.op_1 = x, op_2 = y\<rparr>
       = MultiplierCell_call rnd mp \<lparr>MultiplierInputs.op_1 = y, op_2 = x\<rparr>
   \<and> sum_field (SummatorCell_call rnd sp si)
       = pymin (fadd rnd (SummatorInputs.op_1 si) (SummatorInputs.op_2 si)) (threshold sp)
   \<and> (BenchmarkCell_call dt bp bi = Inr bo \<longrightarrow>
        counter_out bo = counter_in bi + 1
        \<and> halve_first_pixel dt (image_in bi) = Inr (image_out bo)
        \<and> shape (image_out bo) = shape (image_in bi)
        \<and> length (data (image_out bo)) = length (data (image_in bi)))"
  by (auto simp add: SummatorCell_process_parameters_def MultiplierCell_process_parameters_def
      MultiplierCell_call_def SummatorCell_call_def fmul_commute BenchmarkCell_call_def
      split: sum.splits dest: halve_first_pixel_shape)

text \<open>One call of \<open>BenchmarkCell.call\<close> on the dummy image with counter 0.\<close>

theorem cells_compute_witness:
  "BenchmarkCell_call uint8 BenchmarkParameters_default \<lparr>image_in = dummy_image, counter_in = 0\<rparr>
     = Inr \<lparr>image_out = \<lparr>shape = [1, 1, 3], data = [3, 100, 127]\<rparr>, counter_out = 1\<rparr>
   \<and> counter_out \<lparr>image_out = \<lparr>shape = [1, 1, 3], data = [3, 100, 127]\<rparr>, counter_out = 1\<rparr>
     = counter_in \<lparr>image_in = dummy_image, counter_in = 0\<rparr> + 1"
proof -
  have "BenchmarkCell_call uint8 BenchmarkParameters_default \<lparr>image_in = dummy_image, counter_in = 0\<rparr>
     = Inr \<lparr>image_out = \<lparr>shape = [1, 1, 3], data = [3, 100, 127]\<rparr>, counter_out = 1\<rparr>"
    by (simp add: BenchmarkCell_call_def time_sleep_default halve_first_pixel_dummy)
  then show ?thesis
    using cells_compute [of SummatorParameters_default MultiplierParameters Finite
        "\<lparr>MultiplierInputs.op_1 = Finite 2, op_2 = Finite 3\<rparr>" "Finite 2" "Finite 3"
        "\<lparr>SummatorInputs.op_1 = Finite 2, op_2 = Finite 3\<rparr>"
        uint8 BenchmarkParameters_default "\<lparr>image_in = dummy_image, counter_in = 0\<rparr>"
        "\<lparr>image_out = \<lparr>shape = [1, 1, 3], data = [3, 100, 127]\<rparr>, counter_out = 1\<rparr>"]
    by simp
qed

text \<open>
  The claim as stated fails: on the notebook's own requests \<open>SummatorCell.call\<close> returns
  5.0 for the operands 2.0 and 3.0 and, under the threshold 1.0, the sum 1.0 for 10.0
  and 30.0; \<open>MultiplierCell.call\<close> returns 6.0 for 2.0 and 3.0; \<open>BenchmarkCell.call\<close>
  returns counter 1 for counter 0 and an image that differs from its input. The
  outputs 5.0, 6.0 and 1 are not among the values the methods were given, and 1.0 is
  returned because the sum 40.0 is above the threshold.
\<close>

theorem cells_compute_counterexample:
  "sum_field (SummatorCell_call Finite SummatorParameters_default
       \<lparr>SummatorInputs.op_1 = Finite 2, op_2 = Finite 3\<rparr>) = Finite 5
   \<and> sum_field (SummatorCell_call Finite \<lparr>threshold = Finite 1\<rparr>
       \<lparr>SummatorInputs.op_1 = Finite 10, op_2 = Finite 30\<rparr>) = Finite 1
   \<and> product (MultiplierCell_call Finite MultiplierParameters
       \<lparr>MultiplierInputs.op_1 = Finite 2, op_2 = Finite 3\<rparr>) = Finite 6
   \<and> BenchmarkCell_call uint8 BenchmarkParameters_default
       \<lparr>image_in = dummy_image, counter_in = 0\<rparr>
     = Inr \<lparr>image_out = \<lparr>shape = [1, 1, 3], data = [3, 100, 127]\<rparr>, counter_out = 1\<rparr>"
  by (simp add: SummatorCell_call_def SummatorParameters_default_def pymin_def
      MultiplierCell_call_def BenchmarkCell_call_def time_sleep_default halve_first_pixel_dummy)

end
